theory Spec2Isabelle
  imports Main
begin

unbundle bit_operations_syntax

section \<open>Python values used by \<open>metastock/files.py\<close>\<close>

text \<open>
  The program is Python 2 (\<open>print\<close> statements, \<open>xrange\<close>): a \<open>str\<close> is a byte string,
  modelled as \<open>string\<close> (HOL characters are bytes), integers are unbounded (\<open>int\<close>),
  an attribute that is \<open>None\<close> is an \<open>option\<close>, and every exception the code can raise
  is a value of \<open>error\<close>.
\<close>

datatype error =
    IOError | IndexError | AssertionError | AttributeError | TypeError | ValueError
  | StructError | CodecError

definition bind_e :: "error + 'a \<Rightarrow> ('a \<Rightarrow> error + 'b) \<Rightarrow> error + 'b" where
  "bind_e m f = (case m of Inl e \<Rightarrow> Inl e | Inr x \<Rightarrow> f x)"

subsection \<open>Strings\<close>

definition NUL :: char where
  "NUL = CHR 0x00"

definition QUOTE :: char where
  "QUOTE = CHR 0x22"

definition NEWLINE :: string where
  "NEWLINE = [CHR 0x0A]"

text \<open>The characters \<open>str.split()\<close> and \<open>int()\<close> treat as white space.\<close>

definition is_space :: "char \<Rightarrow> bool" where
  "is_space ch = (ch \<in> set [CHR 0x20, CHR 0x09, CHR 0x0A, CHR 0x0B, CHR 0x0C, CHR 0x0D])"

text \<open>\<open>s.split()\<close>: the maximal runs of non-blank characters, in order.\<close>

fun split_ws :: "string \<Rightarrow> string \<Rightarrow> string list" where
  "split_ws cur [] = (if cur = [] then [] else [cur])"
| "split_ws cur (ch # cs) =
     (if is_space ch then (if cur = [] then split_ws [] cs else cur # split_ws [] cs)
      else split_ws (cur @ [ch]) cs)"

definition py_split :: "string \<Rightarrow> string list" where
  "py_split s = split_ws [] s"

text \<open>\<open>s.find('\x00')\<close>: the index of the first NUL, or \<open>-1\<close>.\<close>

definition find_nul :: "string \<Rightarrow> int" where
  "find_nul s = (if NUL \<in> set s then int (length (takeWhile (\<lambda>ch. ch \<noteq> NUL) s)) else -1)"

text \<open>\<open>s.strip('\x00')\<close>: NULs removed at both ends only.\<close>

definition strip_nul :: "string \<Rightarrow> string" where
  "strip_nul s = rev (dropWhile (\<lambda>ch. ch = NUL) (rev (dropWhile (\<lambda>ch. ch = NUL) s)))"

text \<open>\<open>s.replace('"', '""')\<close>.\<close>

definition replace_quote :: "string \<Rightarrow> string" where
  "replace_quote s = concat (map (\<lambda>ch. if ch = QUOTE then [QUOTE, QUOTE] else [ch]) s)"

text \<open>\<open>'%d' % n\<close> and \<open>'%02d' % n\<close>.\<close>

fun show_nat :: "nat \<Rightarrow> string" where
  "show_nat n =
     (if n < 10 then [char_of (48 + n)] else show_nat (n div 10) @ [char_of (48 + n mod 10)])"

declare show_nat.simps [simp del]

definition show_int :: "int \<Rightarrow> string" where
  "show_int i = (if i < 0 then CHR ''-'' # show_nat (nat (- i)) else show_nat (nat i))"

definition fmt_02d :: "int \<Rightarrow> string" where
  "fmt_02d i = (let s = show_int i in if length s < 2 then CHR ''0'' # s else s)"

text \<open>
  \<open>int(s)\<close> on a string: blanks around it are dropped, one sign is allowed, and what
  is left must be a non-empty run of decimal digits; anything else raises \<open>ValueError\<close>.
\<close>

definition is_digit :: "char \<Rightarrow> bool" where
  "is_digit ch = (48 \<le> (of_char ch :: nat) \<and> (of_char ch :: nat) \<le> 57)"

definition digits_val :: "string \<Rightarrow> int" where
  "digits_val ds = foldl (\<lambda>acc ch. acc * 10 + (int (of_char ch) - 48)) 0 ds"

definition py_int :: "string \<Rightarrow> error + int" where
  "py_int s =
     (let t = rev (dropWhile is_space (rev (dropWhile is_space s)));
          neg = (t \<noteq> [] \<and> hd t = CHR ''-'');
          ds = (if t \<noteq> [] \<and> (hd t = CHR ''-'' \<or> hd t = CHR ''+'') then tl t else t)
      in if ds \<noteq> [] \<and> list_all is_digit ds
         then Inr (if neg then - digits_val ds else digits_val ds)
         else Inl ValueError)"

subsection \<open>Files and \<open>struct.unpack\<close>\<close>

text \<open>
  A file system maps a file name to its content. An open file is the string that is
  still unread. \<open>f.read(n)\<close> returns at most \<open>n\<close> bytes and never fails; a negative
  \<open>n\<close> reads up to the end of the file.
\<close>

type_synonym filesystem = "string \<Rightarrow> string option"

definition read :: "int \<Rightarrow> string \<Rightarrow> string \<times> string" where
  "read n fh = (if n < 0 then (fh, []) else (take (nat n) fh, drop (nat n) fh))"

text \<open>
  \<open>struct.unpack\<close> raises \<open>struct.error\<close> unless it is given exactly the bytes of its
  format. Formats without a byte-order prefix use the machine's order, taken here to
  be little-endian.
\<close>

definition le_uint :: "string \<Rightarrow> int" where
  "le_uint bs = foldr (\<lambda>ch acc. int (of_char ch) + 256 * acc) bs 0"

definition le_sint :: "string \<Rightarrow> int" where
  "le_sint bs = (let u = le_uint bs; m = 2 ^ (8 * length bs)
                 in if 2 * u \<ge> m then u - m else u)"

definition unpack_uint :: "nat \<Rightarrow> string \<Rightarrow> error + int" where
  "unpack_uint n bs = (if length bs = n then Inr (le_uint bs) else Inl StructError)"

definition unpack_sint :: "nat \<Rightarrow> string \<Rightarrow> error + int" where
  "unpack_sint n bs = (if length bs = n then Inr (le_sint bs) else Inl StructError)"

definition unpack_c :: "string \<Rightarrow> error + char" where
  "unpack_c bs = (case bs of [ch] \<Rightarrow> Inr ch | _ \<Rightarrow> Inl StructError)"


section \<open>The numeric codec (\<open>metastock/utils.py\<close>)\<close>

text \<open>
  Modelled from the spec: \<open>metastock/utils.py\<close> (\<open>fmsbin2ieee\<close>, \<open>float2date\<close>,
  \<open>float2time\<close>) is not part of the sources. Section 6 of the specification gives its
  contract: \<open>decodeDate\<close> returns an optional \<open>{year, month, day}\<close>, \<open>decodeTime\<close> an
  optional \<open>{hour, minute, second}\<close>. The functions themselves, and everything Python
  computes on a floating-point number (\<open>struct.unpack("f", ...)\<close>, \<open>int(x)\<close>,
  \<open>"%0.2f" % x\<close>), are parameters of the model, collected in a record; \<open>'f\<close> is the
  type of Python floats. \<open>None\<close> from \<open>fmsbin2ieee\<close> or \<open>int_of_float\<close> stands for
  an exception raised there.
\<close>

record date =
  year :: int
  month :: int
  day :: int

record pytime =
  hour :: int
  minute :: int
  second :: int

record 'f codec =
  fmsbin2ieee :: "string \<Rightarrow> 'f option"
  float2date :: "'f \<Rightarrow> date option"
  float2time :: "'f \<Rightarrow> pytime option"
  int_of_float :: "'f \<Rightarrow> int option"
  format_float :: "int \<Rightarrow> 'f \<Rightarrow> string"
  unpack_f :: "string \<Rightarrow> 'f"

text \<open>The values a column's \<open>read\<close> method can return.\<close>

datatype 'f pyvalue = PyNone | PyDate date | PyTime pytime | PyFloat 'f | PyInt int

text \<open>
  Attribute access \<open>value.year\<close>, \<open>value.month\<close>, \<open>value.day\<close>: only a date has these
  attributes; on any other object Python raises \<open>AttributeError\<close>.
\<close>

fun attr_year :: "'f pyvalue \<Rightarrow> error + int" where
  "attr_year (PyDate d) = Inr (year d)"
| "attr_year _ = Inl AttributeError"

fun attr_month :: "'f pyvalue \<Rightarrow> error + int" where
  "attr_month (PyDate d) = Inr (month d)"
| "attr_month _ = Inl AttributeError"

fun attr_day :: "'f pyvalue \<Rightarrow> error + int" where
  "attr_day (PyDate d) = Inr (day d)"
| "attr_day _ = Inl AttributeError"

section \<open>\<open>DataFileInfo\<close>\<close>

text \<open>
  \<open>first_date\<close> and \<open>last_date\<close> hold a decoded date in an EMASTER record and the raw
  32-bit integer in an XMASTER or MASTER record.
\<close>

datatype date_field = NoDate | Decoded date | Raw int

record DataFileInfo =
  file_num :: int
  num_fields :: "int option"
  bit_fields :: "int option"
  bits :: "int list option"
  stock_symbol :: string
  stock_name :: string
  time_frame :: "char option"
  first_date :: date_field
  last_date :: date_field
  columns :: "string list option"

text \<open>
  \<open>DataFileInfo()\<close>: every class attribute is \<open>None\<close>. The three attributes that
  every index reader assigns before the object is used (\<open>file_num\<close>, \<open>stock_symbol\<close>,
  \<open>stock_name\<close>) are not optional in the record and start as \<open>0\<close> and the empty string.
\<close>

definition new_DataFileInfo :: DataFileInfo where
  "new_DataFileInfo =
     \<lparr>file_num = 0, num_fields = None, bit_fields = None, bits = None, stock_symbol = [],
      stock_name = [], time_frame = None, first_date = NoDate, last_date = NoDate,
      columns = None\<rparr>"

subsection \<open>\<open>_load_columns\<close>\<close>

text \<open>
  \<open>reg = re.compile('\"(.+)\",.+')\<close> and \<open>reg.search(line).groups()[0]\<close>, on a line
  without blanks (the lines come from \<open>split()\<close>): the match starts at the first
  quote; the group is greedy, so it ends before the last \<open>",\<close> that is followed by at
  least one more character. Without a match \<open>search\<close> returns \<open>None\<close> and
  \<open>.groups()\<close> raises \<open>AttributeError\<close>.
\<close>

definition reg_search :: "string \<Rightarrow> error + string" where
  "reg_search line =
     (case dropWhile (\<lambda>ch. ch \<noteq> QUOTE) line of
        [] \<Rightarrow> Inl AttributeError
      | _ # r \<Rightarrow>
          (case filter (\<lambda>q. r ! q = QUOTE \<and> r ! (q + 1) = CHR '','' \<and> q + 2 < length r)
                  (rev [1 ..< length r - 1]) of
             [] \<Rightarrow> Inl AttributeError
           | q # _ \<Rightarrow> Inr (take q r)))"

text \<open>
  Lines 54 to 63: \<open>if self.bit_fields:\<close> is Python truthiness, false for \<open>None\<close> and
  for \<open>0\<close>. The loop over \<open>range(8)\<close> appends one flag per bit position and counts the
  set bits.
\<close>

definition truthy :: "int option \<Rightarrow> bool" where
  "truthy v = (case v of None \<Rightarrow> False | Some n \<Rightarrow> n \<noteq> 0)"

definition bit_step :: "int \<Rightarrow> nat \<Rightarrow> int list \<times> int \<Rightarrow> int list \<times> int" where
  "bit_step bf bit_position acc =
     (if (push_bit bit_position 1 AND bf) > 0
      then (fst acc @ [1], snd acc + 1)
      else (fst acc @ [0], snd acc))"

definition resolve_bits :: "DataFileInfo \<Rightarrow> DataFileInfo" where
  "resolve_bits dfi =
     (if truthy (bit_fields dfi)
      then (let r = fold (bit_step (the (bit_fields dfi))) [0 ..< 8] ([], 0)
            in dfi\<lparr>bits := Some (fst r), num_fields := Some (snd r)\<rparr>)
      else dfi\<lparr>bits := Some []\<rparr>)"

text \<open>
  Lines 64 and 65: \<open>while len(lines) > self.num_fields: lines.pop()\<close>. In Python 2 an
  integer compared with \<open>None\<close> is always the greater one, and \<open>pop\<close> on an empty list
  raises \<open>IndexError\<close>.
\<close>

definition gt_py2 :: "int \<Rightarrow> int option \<Rightarrow> bool" where
  "gt_py2 n v = (case v of None \<Rightarrow> True | Some m \<Rightarrow> n > m)"

function truncate_lines :: "string list \<Rightarrow> int option \<Rightarrow> error + string list" where
  "truncate_lines lines nf =
     (if gt_py2 (int (length lines)) nf
      then (if lines = [] then Inl IndexError else truncate_lines (butlast lines) nf)
      else Inr lines)"
  by pat_completeness auto
termination
  by (relation "measure (\<lambda>(lines, nf). length lines)") auto

declare truncate_lines.simps [simp del]

fun collect_names :: "string list \<Rightarrow> error + string list" where
  "collect_names [] = Inr []"
| "collect_names (line # lines) =
     bind_e (reg_search line) (\<lambda>colname.
     bind_e (collect_names lines) (\<lambda>rest. Inr (colname # rest)))"

definition dop_filename :: "int \<Rightarrow> string" where
  "dop_filename n = ''F'' @ show_int n @ ''.DOP''"

definition dop_filename_lower :: "int \<Rightarrow> string" where
  "dop_filename_lower n = ''F'' @ show_int n @ ''.dop''"

definition open_dop :: "filesystem \<Rightarrow> int \<Rightarrow> error + string" where
  "open_dop fs n =
     (case fs (dop_filename n) of
        Some content \<Rightarrow> Inr content
      | None \<Rightarrow> (case fs (dop_filename_lower n) of
                   Some content \<Rightarrow> Inr content
                 | None \<Rightarrow> Inl IOError))"

definition load_columns_lines :: "string list \<Rightarrow> DataFileInfo \<Rightarrow> error + DataFileInfo" where
  "load_columns_lines lines0 dfi0 =
     (let dfi = resolve_bits dfi0 in
      bind_e (truncate_lines lines0 (num_fields dfi)) (\<lambda>lines.
      if Some (int (length lines)) \<noteq> num_fields dfi then Inl AssertionError
      else bind_e (collect_names lines) (\<lambda>cols. Inr (dfi\<lparr>columns := Some cols\<rparr>))))"

definition load_columns :: "filesystem \<Rightarrow> DataFileInfo \<Rightarrow> error + DataFileInfo" where
  "load_columns fs dfi =
     bind_e (open_dop fs (file_num dfi)) (\<lambda>content.
     load_columns_lines (py_split content) dfi)"


subsection \<open>Columns\<close>

text \<open>
  The subclasses of \<open>Column\<close>, each carrying its \<open>name\<close>; \<open>dataSize\<close> is the class
  attribute \<open>4\<close> for all of them. \<open>knownMSColumns.get(name)\<close> is \<open>None\<close> for a name
  that is not a key of the dictionary.
\<close>

datatype column = DateColumn string | TimeColumn string | FloatColumn string | IntColumn string

fun column_name :: "column \<Rightarrow> string" where
  "column_name (DateColumn n) = n"
| "column_name (TimeColumn n) = n"
| "column_name (FloatColumn n) = n"
| "column_name (IntColumn n) = n"

definition dataSize :: "column \<Rightarrow> int" where
  "dataSize col = 4"

definition unknownColumnDataSize :: int where
  "unknownColumnDataSize = 4"

fun is_DateColumn :: "column \<Rightarrow> bool" where
  "is_DateColumn (DateColumn n) = True"
| "is_DateColumn _ = False"

definition knownMSColumns :: "string \<Rightarrow> column option" where
  "knownMSColumns =
     [''DATE'' \<mapsto> DateColumn ''Date'',
      ''TIME'' \<mapsto> TimeColumn ''Time'',
      ''OPEN'' \<mapsto> FloatColumn ''Open'',
      ''HIGH'' \<mapsto> FloatColumn ''High'',
      ''LOW'' \<mapsto> FloatColumn ''Low'',
      ''CLOSE'' \<mapsto> FloatColumn ''Close'',
      ''VOL'' \<mapsto> IntColumn ''Volume'',
      ''OI'' \<mapsto> IntColumn ''Oi'']"

text \<open>The \<open>read\<close> methods: lines 99 to 101, 110 to 112, 126 to 128 and 135 to 137.\<close>

definition decode_float :: "'f codec \<Rightarrow> string \<Rightarrow> error + 'f" where
  "decode_float c bytes = (case fmsbin2ieee c bytes of None \<Rightarrow> Inl CodecError | Some x \<Rightarrow> Inr x)"

fun column_read :: "'f codec \<Rightarrow> column \<Rightarrow> string \<Rightarrow> error + 'f pyvalue" where
  "column_read c (DateColumn n) bytes =
     bind_e (decode_float c bytes) (\<lambda>x.
       Inr (case float2date c x of None \<Rightarrow> PyNone | Some d \<Rightarrow> PyDate d))"
| "column_read c (TimeColumn n) bytes =
     bind_e (decode_float c bytes) (\<lambda>x.
       Inr (case float2time c x of None \<Rightarrow> PyNone | Some t \<Rightarrow> PyTime t))"
| "column_read c (FloatColumn n) bytes =
     bind_e (decode_float c bytes) (\<lambda>x. Inr (PyFloat x))"
| "column_read c (IntColumn n) bytes =
     bind_e (decode_float c bytes) (\<lambda>x.
       case int_of_float c x of None \<Rightarrow> Inl ValueError | Some i \<Rightarrow> Inr (PyInt i))"

text \<open>
  The \<open>format\<close> methods. \<open>DateColumn.format\<close> (lines 103 to 106) and
  \<open>TimeColumn.format\<close> (lines 114 to 117) have the same body:
  \<open>"%02d%02d%02d" % (value.year, value.month, value.day)\<close> unless the value is
  \<open>None\<close>, and \<open>str(value)\<close> otherwise. \<open>FloatColumn.format\<close> is
  \<open>("%0." + str(self.precision) + "f") % value\<close>, \<open>IntColumn\<close> inherits \<open>str(value)\<close>.
\<close>

definition format_ymd :: "'f pyvalue \<Rightarrow> error + string" where
  "format_ymd v =
     bind_e (attr_year v) (\<lambda>y.
     bind_e (attr_month v) (\<lambda>m.
     bind_e (attr_day v) (\<lambda>d. Inr (fmt_02d y @ fmt_02d m @ fmt_02d d))))"

fun py_str :: "'f codec \<Rightarrow> 'f pyvalue \<Rightarrow> error + string" where
  "py_str c PyNone = Inr ''None''"
| "py_str c (PyInt i) = Inr (show_int i)"
| "py_str c _ = Inl TypeError" \<comment> \<open>never reached: \<open>str\<close> is only applied to \<open>None\<close> and to integers\<close>

fun column_format :: "'f codec \<Rightarrow> int \<Rightarrow> column \<Rightarrow> 'f pyvalue \<Rightarrow> error + string" where
  "column_format c precision (DateColumn n) v =
     (if v \<noteq> PyNone then format_ymd v else py_str c v)"
| "column_format c precision (TimeColumn n) v =
     (if v \<noteq> PyNone then format_ymd v else py_str c v)"
| "column_format c precision (FloatColumn n) v =
     (case v of PyFloat x \<Rightarrow> Inr (format_float c precision x) | _ \<Rightarrow> Inl TypeError)"
| "column_format c precision (IntColumn n) v = py_str c v"

subsection \<open>\<open>load_candles\<close>\<close>

text \<open>
  The output file is the list of the strings passed to \<open>outfile.write\<close>, in order; the
  file's content is their concatenation. Opening the output file is taken to succeed.
  The two environment variables the method reads are a record.
\<close>

record environ =
  MS2TXT_CSV_PATH :: "string option"
  MS2TXT_YYYYMMDD :: "string option"

definition env_set :: "string option \<Rightarrow> bool" where
  "env_set v = (case v of None \<Rightarrow> False | Some s \<Rightarrow> s \<noteq> [])"

text \<open>
  Lines 184 to 190, one iteration: the chunk written for one column name.
  \<open>self.columns.index(name)\<close> is the position of the first occurrence of the name;
  indexing \<open>self.bits\<close> beyond its end raises \<open>IndexError\<close>.
\<close>

definition index_of :: "string list \<Rightarrow> string \<Rightarrow> nat" where
  "index_of xs x = length (takeWhile (\<lambda>y. y \<noteq> x) xs)"

definition header_cell :: "string list \<Rightarrow> int list \<Rightarrow> string \<Rightarrow> error + string list" where
  "header_cell cols bs ms_col_name =
     (let column = knownMSColumns ms_col_name; i = index_of cols ms_col_name in
      if i \<ge> length bs then Inl IndexError
      else if bs ! i = 0 then Inr []
      else (case column of
              Some col \<Rightarrow> Inr ['','' @ [QUOTE] @ replace_quote (column_name col) @ [QUOTE]]
            | None \<Rightarrow> Inr []))"

text \<open>
  The loop of lines 184 to 190: the result is the exception raised, if any, what was
  written, and the local list \<open>columns\<close>.
\<close>

fun header_loop ::
  "string list \<Rightarrow> int list \<Rightarrow> string list \<Rightarrow> string list \<Rightarrow> column option list
   \<Rightarrow> error option \<times> string list \<times> column option list" where
  "header_loop cols bs [] out cs = (None, out, cs)"
| "header_loop cols bs (nm # names) out cs =
     (case header_cell cols bs nm of
        Inl e \<Rightarrow> (Some e, out, cs)
      | Inr chunk \<Rightarrow> header_loop cols bs names (out @ chunk) (cs @ [knownMSColumns nm]))"

text \<open>
  The state of the loops of lines 200 to 219: the unread part of the data file, what
  has been written, and the flag \<open>perform_write\<close>.
\<close>

record candle_state =
  inp :: string
  out :: "string list"
  perform_write :: bool

text \<open>Lines 202 to 217: one column of one record.\<close>

definition col_step ::
  "'f codec \<Rightarrow> int \<Rightarrow> string \<Rightarrow> int \<Rightarrow> column option \<Rightarrow> candle_state \<Rightarrow> error + candle_state"
  where
  "col_step c precision name yyyymmdd column st =
     (case column of
        None \<Rightarrow> Inr (st\<lparr>inp := snd (read unknownColumnDataSize (inp st))\<rparr>)
      | Some col \<Rightarrow>
          (let (bytes, fh) = read (dataSize col) (inp st) in
           bind_e (column_read c col bytes) (\<lambda>v.
           bind_e (column_format c precision col v) (\<lambda>value.
           if is_DateColumn col
           then bind_e (py_int value) (\<lambda>n.
             let pw = (n \<ge> yyyymmdd);
                 out1 = (if pw then out st @ [[QUOTE] @ name @ [QUOTE]] else out st);
                 out2 = (if pw then out1 @ ['','' @ value] else out1)
             in Inr \<lparr>inp = fh, out = out2, perform_write = pw\<rparr>)
           else Inr \<lparr>inp = fh,
                     out = (if perform_write st then out st @ ['','' @ value] else out st),
                     perform_write = perform_write st\<rparr>))))"

text \<open>The inner loop (line 201) over the columns of one record.\<close>

fun cols_loop ::
  "'f codec \<Rightarrow> int \<Rightarrow> string \<Rightarrow> int \<Rightarrow> column option list \<Rightarrow> candle_state
   \<Rightarrow> error option \<times> candle_state" where
  "cols_loop c precision name yyyymmdd [] st = (None, st)"
| "cols_loop c precision name yyyymmdd (col # cols) st =
     (case col_step c precision name yyyymmdd col st of
        Inl e \<Rightarrow> (Some e, st)
      | Inr st' \<Rightarrow> cols_loop c precision name yyyymmdd cols st')"

text \<open>Lines 218 and 219: the end of a record.\<close>

definition end_record :: "candle_state \<Rightarrow> candle_state" where
  "end_record st = (if perform_write st then st\<lparr>out := out st @ [NEWLINE]\<rparr> else st)"

text \<open>The outer loop (line 200), \<open>n\<close> records.\<close>

fun recs_loop ::
  "'f codec \<Rightarrow> int \<Rightarrow> string \<Rightarrow> int \<Rightarrow> column option list \<Rightarrow> nat \<Rightarrow> candle_state
   \<Rightarrow> error option \<times> candle_state" where
  "recs_loop c precision name yyyymmdd cols 0 st = (None, st)"
| "recs_loop c precision name yyyymmdd cols (Suc n) st =
     (case cols_loop c precision name yyyymmdd cols st of
        (Some e, st') \<Rightarrow> (Some e, st')
      | (None, st') \<Rightarrow> recs_loop c precision name yyyymmdd cols n (end_record st'))"

definition dat_filename :: "filesystem \<Rightarrow> int \<Rightarrow> string" where
  "dat_filename fs n =
     (if fs (''F'' @ show_int n @ ''.DAT'') \<noteq> None then ''F'' @ show_int n @ ''.DAT''
      else ''F'' @ show_int n @ ''.MWD'')"

definition csv_filename :: "environ \<Rightarrow> string \<Rightarrow> string" where
  "csv_filename env symbol =
     (if env_set (MS2TXT_CSV_PATH env) then the (MS2TXT_CSV_PATH env) @ symbol @ ''.CSV''
      else symbol @ ''.CSV'')"

definition read_cutoff :: "environ \<Rightarrow> error + int" where
  "read_cutoff env =
     (if env_set (MS2TXT_YYYYMMDD env) then py_int (the (MS2TXT_YYYYMMDD env)) else Inr 0)"

text \<open>
  Lines 182 to 219, once both files are open: \<open>fh\<close> is the data file after its header.
  The result is the exception raised, if any, and what was written. The method runs
  after \<open>_load_columns\<close>, which sets \<open>columns\<close> and \<open>bits\<close> to lists; were one of them
  still \<open>None\<close>, iterating or indexing it would raise \<open>TypeError\<close>.
\<close>

definition write_candles ::
  "'f codec \<Rightarrow> int \<Rightarrow> environ \<Rightarrow> DataFileInfo \<Rightarrow> int \<Rightarrow> string \<Rightarrow> error option \<times> string list"
  where
  "write_candles c precision env dfi last_rec fh =
     (let out0 = [[QUOTE] @ ''Name'' @ [QUOTE]] in
      case columns dfi of
        None \<Rightarrow> (Some TypeError, out0)
      | Some cols \<Rightarrow>
        (case bits dfi of
           None \<Rightarrow> (Some TypeError, out0)
         | Some bs \<Rightarrow>
           (case header_loop cols bs cols out0 [] of
              (Some e, out1, cs) \<Rightarrow> (Some e, out1)
            | (None, out1, cs) \<Rightarrow>
              (case read_cutoff env of
                 Inl e \<Rightarrow> (Some e, out1 @ [NEWLINE])
               | Inr yyyymmdd \<Rightarrow>
                 (let r = recs_loop c precision (stock_name dfi) yyyymmdd cs
                            (nat (last_rec - 1))
                            \<lparr>inp = fh, out = out1 @ [NEWLINE], perform_write = True\<rparr>
                  in (fst r, out (snd r)))))))"

text \<open>
  \<open>load_candles\<close>: the exception raised, if any, and the output file (its name and
  what was written to it) if it was opened.
\<close>

definition load_candles ::
  "'f codec \<Rightarrow> int \<Rightarrow> filesystem \<Rightarrow> environ \<Rightarrow> DataFileInfo
   \<Rightarrow> error option \<times> (string \<times> string list) option" where
  "load_candles c precision fs env dfi =
     (case fs (dat_filename fs (file_num dfi)) of
        None \<Rightarrow> (Some IOError, None)
      | Some content \<Rightarrow>
        (let (b1, fh1) = read 2 content in
         case unpack_uint 2 b1 of
           Inl e \<Rightarrow> (Some e, None)
         | Inr max_recs \<Rightarrow>
           (let (b2, fh2) = read 2 fh1 in
            case unpack_uint 2 b2 of
              Inl e \<Rightarrow> (Some e, None)
            | Inr last_rec \<Rightarrow>
              (case num_fields dfi of
                 None \<Rightarrow> (Some TypeError, None)
               | Some nf \<Rightarrow>
                 (let (pad, fh3) = read ((nf - 1) * 4) fh2;
                      r = write_candles c precision env dfi last_rec fh3
                  in (fst r, Some (csv_filename env (stock_symbol dfi), snd r)))))))"

subsection \<open>\<open>convert2ascii\<close> and \<open>output_ascii\<close>\<close>

text \<open>
  \<open>convert2ascii\<close> catches every \<open>Exception\<close> of \<open>_load_columns\<close> and \<open>load_candles\<close>,
  prints it and returns. The model returns the exception caught, if any, and the
  output file, if one was opened. \<open>output_ascii\<close> converts, in index order, every
  stock that is selected.
\<close>

definition convert2ascii ::
  "'f codec \<Rightarrow> int \<Rightarrow> filesystem \<Rightarrow> environ \<Rightarrow> DataFileInfo
   \<Rightarrow> error option \<times> (string \<times> string list) option" where
  "convert2ascii c precision fs env dfi =
     (case load_columns fs dfi of
        Inl e \<Rightarrow> (Some e, None)
      | Inr dfi' \<Rightarrow> load_candles c precision fs env dfi')"

fun output_ascii ::
  "'f codec \<Rightarrow> int \<Rightarrow> filesystem \<Rightarrow> environ \<Rightarrow> bool \<Rightarrow> string list \<Rightarrow> DataFileInfo list
   \<Rightarrow> (string \<times> error option \<times> (string \<times> string list) option) list" where
  "output_ascii c precision fs env all_symbols symbols [] = []"
| "output_ascii c precision fs env all_symbols symbols (stock # stocks) =
     (if all_symbols \<or> stock_symbol stock \<in> set symbols
      then (stock_symbol stock, convert2ascii c precision fs env stock)
           # output_ascii c precision fs env all_symbols symbols stocks
      else output_ascii c precision fs env all_symbols symbols stocks)"


section \<open>The index files\<close>

definition skip :: "int \<Rightarrow> string \<Rightarrow> string" where
  "skip n fh = snd (read n fh)"

definition unpack_float :: "'f codec \<Rightarrow> string \<Rightarrow> error + 'f" where
  "unpack_float c bs = (if length bs = 4 then Inr (unpack_f c bs) else Inl StructError)"

text \<open>\<open>if s.find('\x00') > 0: s = s[0:s.find('\x00')]\<close>, as all three readers write it.\<close>

definition cut_at_nul :: "string \<Rightarrow> string" where
  "cut_at_nul s = (if find_nul s > 0 then take (nat (find_nul s)) s else s)"

subsection \<open>EMASTER: \<open>MSEMasterFile\<close>\<close>

text \<open>
  \<open>_read_file_info\<close>, lines 254 to 278: the result is the \<open>DataFileInfo\<close>, or \<open>None\<close>
  for a record with a bad date, and the file handle after the record.
\<close>

definition MSE_read_file_info ::
  "'f codec \<Rightarrow> string \<Rightarrow> error + (DataFileInfo option \<times> string)" where
  "MSE_read_file_info c fh0 =
     (let fh1 = skip 2 fh0; (b, fh2) = read 1 fh1 in
      bind_e (unpack_uint 1 b) (\<lambda>file_num_v.
      let fh3 = skip 3 fh2; (b, fh4) = read 1 fh3 in
      bind_e (unpack_uint 1 b) (\<lambda>num_fields_v.
      let (b, fh5) = read 1 fh4 in
      bind_e (unpack_uint 1 b) (\<lambda>bit_fields_v.
      let fh6 = skip 3 fh5; (sym, fh7) = read 14 fh6;
          stock_symbol_v = strip_nul sym;
          fh8 = skip 7 fh7; (nm, fh9) = read 16 fh8;
          stock_name_v = cut_at_nul (strip_nul nm);
          fh10 = skip 12 fh9; (b, fh11) = read 1 fh10 in
      bind_e (unpack_c b) (\<lambda>time_frame_v.
      let fh12 = skip 3 fh11; (b, fh13) = read 4 fh12 in
      bind_e (unpack_float c b) (\<lambda>f1.
      let first_date_v = float2date c f1;
          fh14 = skip 4 fh13; (b, fh15) = read 4 fh14 in
      bind_e (unpack_float c b) (\<lambda>f2.
      let last_date_v = float2date c f2;
          fh16 = skip 116 fh15 in
      if first_date_v = None \<or> last_date_v = None then Inr (None, fh16)
      else Inr (Some \<lparr>file_num = file_num_v, num_fields = Some num_fields_v,
                      bit_fields = Some bit_fields_v, bits = None,
                      stock_symbol = stock_symbol_v, stock_name = stock_name_v,
                      time_frame = Some time_frame_v,
                      first_date = Decoded (the first_date_v),
                      last_date = Decoded (the last_date_v), columns = None\<rparr>, fh16))))))))"

text \<open>The loop of lines 294 to 298.\<close>

fun MSE_loop ::
  "'f codec \<Rightarrow> nat \<Rightarrow> string \<Rightarrow> DataFileInfo list \<Rightarrow> error + DataFileInfo list" where
  "MSE_loop c 0 fh stocks = Inr stocks"
| "MSE_loop c (Suc files_no) fh stocks =
     bind_e (MSE_read_file_info c fh) (\<lambda>r.
       MSE_loop c files_no (snd r)
         (case fst r of None \<Rightarrow> stocks | Some dfi \<Rightarrow> stocks @ [dfi]))"

definition MSEMasterFile_init :: "'f codec \<Rightarrow> string \<Rightarrow> error + DataFileInfo list" where
  "MSEMasterFile_init c content =
     (let (b, fh1) = read 2 content in
      bind_e (unpack_uint 2 b) (\<lambda>files_no.
      let (b, fh2) = read 2 fh1 in
      bind_e (unpack_uint 2 b) (\<lambda>last_file.
      MSE_loop c (nat files_no) (skip 188 fh2) [])))"

subsection \<open>XMASTER: \<open>MSXMasterFile\<close>\<close>

definition MSX_read_file_info :: "string \<Rightarrow> error + (DataFileInfo \<times> string)" where
  "MSX_read_file_info fh0 =
     (let fh1 = skip 1 fh0; (sym, fh2) = read 15 fh1;
          stock_symbol_v = cut_at_nul sym;
          (nm, fh3) = read 46 fh2;
          stock_name_v = cut_at_nul nm;
          (b, fh4) = read 1 fh3 in
      bind_e (unpack_c b) (\<lambda>time_frame_v.
      let fh5 = skip 2 fh4; (b, fh6) = read 2 fh5 in
      bind_e (unpack_sint 2 b) (\<lambda>file_num_v.
      let fh7 = skip 3 fh6; (b, fh8) = read 1 fh7 in
      bind_e (unpack_sint 1 b) (\<lambda>bit_fields_v.
      let fh9 = skip 9 fh8; (b, fh10) = read 4 fh9 in
      bind_e (unpack_sint 4 b) (\<lambda>last_date_v.
      let fh11 = skip 20 fh10; (b, fh12) = read 4 fh11 in
      bind_e (unpack_sint 4 b) (\<lambda>first_date_v.
      let fh13 = skip (4 + 4 + 4 + 30) fh12 in
      Inr (\<lparr>file_num = file_num_v, num_fields = None,
            bit_fields = Some bit_fields_v, bits = None,
            stock_symbol = stock_symbol_v, stock_name = stock_name_v,
            time_frame = Some time_frame_v,
            first_date = Raw first_date_v, last_date = Raw last_date_v,
            columns = None\<rparr>, fh13)))))))"

fun MSX_loop :: "nat \<Rightarrow> string \<Rightarrow> DataFileInfo list \<Rightarrow> error + DataFileInfo list" where
  "MSX_loop 0 fh stocks = Inr stocks"
| "MSX_loop (Suc files_no) fh stocks =
     bind_e (MSX_read_file_info fh) (\<lambda>r. MSX_loop files_no (snd r) (stocks @ [fst r]))"

definition MSXMasterFile_init :: "string \<Rightarrow> error + DataFileInfo list" where
  "MSXMasterFile_init content =
     (let fh1 = skip (1 + 1 + 2 + 6) content; (b, fh2) = read 2 fh1 in
      bind_e (unpack_sint 2 b) (\<lambda>files_no.
      MSX_loop (nat files_no) (skip (2 + 2 + 2 + 2 + 130) fh2) []))"

subsection \<open>MASTER: \<open>MSMasterFile\<close>\<close>

definition MS_read_file_info :: "string \<Rightarrow> error + (DataFileInfo \<times> string)" where
  "MS_read_file_info fh0 =
     (let (b, fh1) = read 1 fh0 in
      bind_e (unpack_uint 1 b) (\<lambda>file_num_v.
      let fh2 = skip 6 fh1; (nm, fh3) = read 16 fh2;
          stock_name_v = cut_at_nul nm;
          fh4 = skip 2 fh3; (b, fh5) = read 4 fh4 in
      bind_e (unpack_sint 4 b) (\<lambda>first_date_v.
      let (b, fh6) = read 4 fh5 in
      bind_e (unpack_sint 4 b) (\<lambda>last_date_v.
      let fh7 = skip 3 fh6; (sym, fh8) = read 14 fh7;
          stock_symbol_v = cut_at_nul sym;
          fh9 = skip 3 fh8 in
      Inr (\<lparr>file_num = file_num_v, num_fields = None, bit_fields = None, bits = None,
            stock_symbol = stock_symbol_v, stock_name = stock_name_v,
            time_frame = None,
            first_date = Raw first_date_v, last_date = Raw last_date_v,
            columns = None\<rparr>, fh9)))))"

fun MS_loop :: "nat \<Rightarrow> string \<Rightarrow> DataFileInfo list \<Rightarrow> error + DataFileInfo list" where
  "MS_loop 0 fh stocks = Inr stocks"
| "MS_loop (Suc files_no) fh stocks =
     bind_e (MS_read_file_info fh) (\<lambda>r. MS_loop files_no (snd r) (stocks @ [fst r]))"

definition MSMasterFile_init :: "string \<Rightarrow> error + DataFileInfo list" where
  "MSMasterFile_init content =
     (let (b, fh1) = read 2 content in
      bind_e (unpack_uint 2 b) (\<lambda>files_no.
      MS_loop (nat files_no) (skip 51 fh1) []))"


section \<open>Specification-side notions and sample inputs\<close>

text \<open>
  The number of set bits among the eight bit positions the loader inspects, and the
  number of columns of a resolved schema that are active: those for which the header
  loop's lookup \<open>self.bits[self.columns.index(name)]\<close> (line 186) finds a flag other
  than \<open>0\<close>.
\<close>

definition popcount8 :: "int \<Rightarrow> int" where
  "popcount8 bf = int (length (filter (bit bf) [0 ..< 8]))"

definition resolved_active_count :: "DataFileInfo \<Rightarrow> nat option" where
  "resolved_active_count dfi =
     (case (columns dfi, bits dfi) of
        (Some cols, Some bs) \<Rightarrow>
          Some (length (filter (\<lambda>nm. index_of cols nm < length bs \<and> bs ! index_of cols nm \<noteq> 0)
                          cols))
      | _ \<Rightarrow> None)"

text \<open>
  A stand-in codec for the sample inputs: a Python float is an integer, four bytes decode
  to their little-endian value, and a date or a time is read off the decimal digits.
\<close>

definition le_bytes :: "nat \<Rightarrow> int \<Rightarrow> string" where
  "le_bytes n v = map (\<lambda>k. char_of (v div 256 ^ k)) [0 ..< n]"

definition sample_codec :: "int codec" where
  "sample_codec =
     \<lparr>fmsbin2ieee = (\<lambda>bs. if length bs = 4 then Some (le_uint bs) else None),
      float2date = (\<lambda>x. if x \<le> 0 then None
                         else Some \<lparr>year = x div 10000, month = x div 100 mod 100,
                                    day = x mod 100\<rparr>),
      float2time = (\<lambda>x. if x < 0 then None
                         else Some \<lparr>hour = x div 10000, minute = x div 100 mod 100,
                                    second = x mod 100\<rparr>),
      int_of_float = Some,
      format_float = (\<lambda>p x. show_int x @ ''.00''),
      unpack_f = le_uint\<rparr>"

definition no_env :: environ where
  "no_env = \<lparr>MS2TXT_CSV_PATH = None, MS2TXT_YYYYMMDD = None\<rparr>"

definition five_lines :: "string list" where
  \<open>five_lines = [''"DATE",4'', ''"OPEN",4'', ''"HIGH",4'', ''"LOW",4'', ''"CLOSE",4'']\<close>

definition masked_stock :: DataFileInfo where
  "masked_stock =
     new_DataFileInfo\<lparr>file_num := 1, num_fields := Some 7, bit_fields := Some 5,
                      stock_symbol := ''AC'', stock_name := ''ACME''\<rparr>"

text \<open>
  A data file: the two header words, the header padding of \<open>(num_fields - 1) * 4\<close>
  bytes, and the four-byte values of the records.
\<close>

definition dat_file :: "int \<Rightarrow> int \<Rightarrow> int list \<Rightarrow> string" where
  "dat_file last_rec nf vals =
     le_bytes 2 last_rec @ le_bytes 2 last_rec @ replicate (4 * nat (nf - 1)) NUL
     @ concat (map (le_bytes 4) vals)"

text \<open>A symbol with mask \<open>0b101\<close>: its schema is DATE, OPEN, and slot 1 is inactive.\<close>

definition masked_fs :: filesystem where
  \<open>masked_fs =
     [''F1.DOP'' \<mapsto> ''"DATE",0'' @ NEWLINE @ ''"OPEN",0'' @ NEWLINE @ ''"HIGH",0'' @ NEWLINE,
      ''F1.DAT'' \<mapsto> dat_file 2 2 [20200101, 17]]\<close>

text \<open>A symbol whose schema lists OPEN before DATE, both active.\<close>

definition open_first_stock :: DataFileInfo where
  "open_first_stock =
     new_DataFileInfo\<lparr>file_num := 2, num_fields := Some 2, bit_fields := Some 3,
                      stock_symbol := ''AC'', stock_name := ''ACME''\<rparr>"

definition open_first_fs :: filesystem where
  \<open>open_first_fs =
     [''F2.DOP'' \<mapsto> ''"OPEN",0'' @ NEWLINE @ ''"DATE",0'' @ NEWLINE,
      ''F2.DAT'' \<mapsto> dat_file 2 2 [17, 20200101]]\<close>

text \<open>
  A MASTER record (53 bytes) for file number 7 and symbol \<open>AB\<close> with an empty name
  field, the stock it is parsed to, and the symbol's files.
\<close>

definition master_record :: string where
  "master_record =
     le_bytes 1 7 @ replicate 6 NUL @ replicate 16 NUL @ replicate 2 NUL
     @ le_bytes 4 1200101 @ le_bytes 4 1200105 @ replicate 3 NUL
     @ ''AB'' @ replicate 12 NUL @ replicate 3 NUL"

definition master_stock :: DataFileInfo where
  "master_stock =
     new_DataFileInfo\<lparr>file_num := 7, stock_symbol := ''AB'', stock_name := replicate 16 NUL,
                      first_date := Raw 1200101, last_date := Raw 1200105\<rparr>"

definition master_fs :: filesystem where
  \<open>master_fs =
     [''F7.DOP'' \<mapsto> ''"DATE",0'' @ NEWLINE @ ''"CLOSE",0'' @ NEWLINE,
      ''F7.DAT'' \<mapsto> dat_file 2 2 [20200101, 17]]\<close>

text \<open>An EMASTER-style stock with a declared field count and a zero mask.\<close>

definition zero_mask_stock :: DataFileInfo where
  "zero_mask_stock =
     new_DataFileInfo\<lparr>file_num := 7, num_fields := Some 2, bit_fields := Some 0,
                      stock_symbol := ''AB'', stock_name := ''ABC''\<rparr>"

text \<open>A symbol with a DATE and a TIME column; the time value is 09:30:00.\<close>

definition time_stock :: DataFileInfo where
  "time_stock =
     new_DataFileInfo\<lparr>file_num := 3, num_fields := Some 2, bit_fields := Some 3,
                      stock_symbol := ''AC'', stock_name := ''ACME''\<rparr>"

definition time_fs :: filesystem where
  \<open>time_fs =
     [''F3.DOP'' \<mapsto> ''"DATE",0'' @ NEWLINE @ ''"TIME",0'' @ NEWLINE,
      ''F3.DAT'' \<mapsto> dat_file 2 2 [20200101, 93000]]\<close>

text \<open>
  A symbol whose mask asks for three fields while its description file lists two names.
\<close>

definition short_stock :: DataFileInfo where
  "short_stock =
     new_DataFileInfo\<lparr>file_num := 4, num_fields := Some 3, bit_fields := Some 7,
                      stock_symbol := ''SH'', stock_name := ''SHORT''\<rparr>"

definition short_dop :: string where
  \<open>short_dop = ''"DATE",0'' @ NEWLINE @ ''"CLOSE",0'' @ NEWLINE\<close>

definition short_fs :: filesystem where
  "short_fs = masked_fs(''F4.DOP'' \<mapsto> short_dop)"

text \<open>
  The EMASTER layout in the specification's words (section 4.1, offsets from the start
  of a 192-byte record): \<open>file_num\<close> at 2, \<open>num_fields\<close> at 6, \<open>bit_fields\<close> at 7,
  \<open>stock_symbol\<close> at 11 (14 bytes), \<open>stock_name\<close> at 32 (16 bytes), \<open>time_frame\<close> at
  60, \<open>first_date\<close> at 64 and \<open>last_date\<close> at 72 (4 bytes each). A record is rejected
  when one of its two dates does not decode.
\<close>
definition emaster_rejected :: "'f codec \<Rightarrow> string \<Rightarrow> bool" where
  "emaster_rejected c r =
     (float2date c (unpack_f c (take 4 (drop 64 r))) = None
      \<or> float2date c (unpack_f c (take 4 (drop 72 r))) = None)"

definition emaster_decode :: "'f codec \<Rightarrow> string \<Rightarrow> DataFileInfo" where
  "emaster_decode c r =
     \<lparr>file_num = le_uint (take 1 (drop 2 r)),
      num_fields = Some (le_uint (take 1 (drop 6 r))),
      bit_fields = Some (le_uint (take 1 (drop 7 r))),
      bits = None,
      stock_symbol = strip_nul (take 14 (drop 11 r)),
      stock_name = cut_at_nul (strip_nul (take 16 (drop 32 r))),
      time_frame = Some (r ! 60),
      first_date = Decoded (the (float2date c (unpack_f c (take 4 (drop 64 r))))),
      last_date = Decoded (the (float2date c (unpack_f c (take 4 (drop 72 r))))),
      columns = None\<rparr>"

text \<open>An EMASTER file of three records; the second has a first date that does not decode.\<close>
definition emaster_record ::
  "int \<Rightarrow> int \<Rightarrow> int \<Rightarrow> string \<Rightarrow> string \<Rightarrow> int \<Rightarrow> int \<Rightarrow> string" where
  "emaster_record fnum nf bf symb nm d1 d2 =
     replicate 2 NUL @ le_bytes 1 fnum @ replicate 3 NUL @ le_bytes 1 nf @ le_bytes 1 bf
     @ replicate 3 NUL @ symb @ replicate (14 - length symb) NUL @ replicate 7 NUL
     @ nm @ replicate (16 - length nm) NUL @ replicate 12 NUL @ ''D'' @ replicate 3 NUL
     @ le_bytes 4 d1 @ replicate 4 NUL @ le_bytes 4 d2 @ replicate 116 NUL"

definition emaster_header :: "int \<Rightarrow> string" where
  "emaster_header n = le_bytes 2 n @ le_bytes 2 n @ replicate 188 NUL"

definition emaster_file :: string where
  "emaster_file =
     emaster_header 3
     @ emaster_record 1 7 127 ''AAA'' ''Alpha'' 1200101 1200105
     @ emaster_record 2 7 127 ''BBB'' ''Beta'' 0 1200105
     @ emaster_record 3 5 31 ''CCC'' ''Gamma'' 1200101 1200105"

text \<open>
  A data stream with the four bytes of slot \<open>k\<close> of its first record removed, and the
  comparison of two runs of the column loop: the same exception (or none), the same
  strings written, the same \<open>perform_write\<close> and, when no exception was raised, the same
  unread rest of the file.
\<close>
definition cut_slot :: "nat \<Rightarrow> string \<Rightarrow> string" where
  "cut_slot k s = take (4 * k) s @ drop (4 * k + 4) s"

definition same_output :: "error option \<times> candle_state \<Rightarrow> error option \<times> candle_state \<Rightarrow> bool" where
  "same_output r r' =
     (fst r' = fst r \<and> out (snd r') = out (snd r)
      \<and> perform_write (snd r') = perform_write (snd r)
      \<and> (if fst r = None then inp (snd r') = inp (snd r) else True))"

text \<open>A record of three slots, the middle one holding four bytes of an unknown column.\<close>
definition junk_state :: candle_state where
  "junk_state = \<lparr>inp = le_bytes 4 20200101 @ ''junk'' @ le_bytes 4 17, out = [],
                 perform_write = True\<rparr>"

text \<open>
  The date of a record as the record loop compares it with the cutoff: the four bytes
  of the DATE slot read, formatted and passed to \<open>int\<close> (lines 207 to 213). A slot is a
  date slot when its column is a \<open>DateColumn\<close>.
\<close>

definition decoded_date :: "'f codec \<Rightarrow> int \<Rightarrow> string \<Rightarrow> string \<Rightarrow> error + int" where
  "decoded_date c precision n bytes =
     bind_e (column_read c (DateColumn n) bytes) (\<lambda>v.
     bind_e (column_format c precision (DateColumn n) v) py_int)"

definition is_date_slot :: "column option \<Rightarrow> bool" where
  "is_date_slot col = (case col of None \<Rightarrow> False | Some cl \<Rightarrow> is_DateColumn cl)"

text \<open>
  The cutoff 20200103, and a symbol whose schema lists OPEN before DATE, with two
  records: open 17 on 20200101, which is below the cutoff, and open 18 on 20200103.
\<close>

definition cutoff_env :: environ where
  "cutoff_env = \<lparr>MS2TXT_CSV_PATH = None, MS2TXT_YYYYMMDD = Some ''20200103''\<rparr>"

definition filtered_stock :: DataFileInfo where
  "filtered_stock =
     new_DataFileInfo\<lparr>file_num := 6, num_fields := Some 2, bit_fields := Some 3,
                      stock_symbol := ''AC'', stock_name := ''ACME''\<rparr>"

definition filtered_fs :: filesystem where
  \<open>filtered_fs =
     [''F6.DOP'' \<mapsto> ''"OPEN",0'' @ NEWLINE @ ''"DATE",0'' @ NEWLINE,
      ''F6.DAT'' \<mapsto> dat_file 3 2 [17, 20200101, 18, 20200103]]\<close>

section \<open>Properties of the column-schema loader\<close>

lemma bit_test: "(push_bit i 1 AND (bf::int) > 0) = bit bf i"
proof -
  have "push_bit i 1 AND bf \<ge> 0" by simp
  moreover have "(push_bit i 1 AND bf \<noteq> 0) = bit bf i"
    by (simp add: bit_iff_and_push_bit_not_eq_0 and.commute)
  ultimately show ?thesis by linarith
qed

lemma fold_bit_step:
  "fold (bit_step bf) ps acc =
     (fst acc @ map (\<lambda>p. if bit bf p then 1 else 0) ps,
      snd acc + int (length (filter (bit bf) ps)))"
proof (induction ps arbitrary: acc)
  case Nil
  show ?case by simp
next
  case (Cons p ps)
  have step: "bit_step bf p acc =
      (if bit bf p then (fst acc @ [1], snd acc + 1) else (fst acc @ [0], snd acc))"
    unfolding bit_step_def bit_test ..
  show ?case by (simp add: Cons.IH step)
qed

lemma resolve_bits_truthy:
  assumes "bit_fields dfi = Some bf" "bf \<noteq> 0"
  shows "resolve_bits dfi =
           dfi\<lparr>bits := Some (map (\<lambda>p. if bit bf p then 1 else 0) [0 ..< 8]),
               num_fields := Some (popcount8 bf)\<rparr>"
  using assms by (simp add: resolve_bits_def truthy_def fold_bit_step popcount8_def Let_def)

lemma resolve_bits_falsy:
  assumes "\<not> truthy (bit_fields dfi)"
  shows "resolve_bits dfi = dfi\<lparr>bits := Some []\<rparr>"
  using assms by (simp add: resolve_bits_def)

lemma truncate_lines_Some:
  "0 \<le> n \<Longrightarrow> truncate_lines lines (Some n) = Inr (take (nat n) lines)"
proof (induction lines "Some n" rule: truncate_lines.induct)
  case (1 lines)
  show ?case
  proof (cases "int (length lines) > n")
    case True
    with 1(2) have ne: "lines \<noteq> []" by auto
    have "take (nat n) (butlast lines) = take (nat n) lines"
      using True 1(2) by (simp add: butlast_conv_take min_def)
    with 1 True ne show ?thesis
      by (subst truncate_lines.simps) (simp add: gt_py2_def)
  next
    case False
    then show ?thesis
      by (subst truncate_lines.simps) (simp add: gt_py2_def)
  qed
qed

lemma truncate_lines_None: "truncate_lines lines None = Inl IndexError"
proof (induction lines "None :: int option" rule: truncate_lines.induct)
  case (1 lines)
  then show ?case
    by (subst truncate_lines.simps) (simp add: gt_py2_def)
qed

lemma collect_names_length: "collect_names ls = Inr cols \<Longrightarrow> length cols = length ls"
  by (induction ls arbitrary: cols) (auto simp: bind_e_def split: sum.splits)

lemma popcount8_5: "popcount8 5 = 2"
  by (simp add: popcount8_def upt_rec numeral_nat bit_numeral_simps)

lemma five_lines_names: "collect_names (take 2 five_lines) = Inr [''DATE'', ''OPEN'']"
  by code_simp

lemma zero_bitmask_keeps_num_fields:
  "num_fields (resolve_bits (new_DataFileInfo\<lparr>num_fields := Some 5, bit_fields := Some 0\<rparr>))
     \<noteq> Some (popcount8 0)"
  by (simp add: resolve_bits_def truthy_def new_DataFileInfo_def popcount8_def)

lemma one_active_column_for_mask_5:
  "map_sum id resolved_active_count (load_columns_lines five_lines masked_stock)
     = Inr (Some 1)"
  by code_simp

text \<open>
  Claim C1 fails on the code in two places. The loader's test \<open>if self.bit_fields:\<close> is
  false for a mask that is present but zero: a record with \<open>bit_fields = 0\<close> and a
  declared \<open>num_fields = 5\<close> keeps \<open>5\<close>, not the popcount \<open>0\<close>. And for
  \<open>bit_fields = 0b00000101\<close> with five names the loader keeps the first two names, DATE
  and OPEN, while the active flags are those of slots 0 and 2: the resolved schema has
  one active column, not two.
\<close>

theorem bitmask_claim_counterexample:
  "num_fields (resolve_bits (new_DataFileInfo\<lparr>num_fields := Some 5, bit_fields := Some 0\<rparr>))
     \<noteq> Some (popcount8 0)
   \<and> map_sum id resolved_active_count (load_columns_lines five_lines masked_stock)
       = Inr (Some 1)"
  using zero_bitmask_keeps_num_fields one_active_column_for_mask_5 by (rule conjI)

text \<open>
  Claim C1, amended: whenever \<open>bit_fields\<close> is present and non-zero, the loader sets
  \<open>num_fields\<close> to the popcount of \<open>bit_fields\<close>, whatever was declared, and the flag of
  slot \<open>i\<close> (for \<open>i\<close> from 0 to 7) is 1 exactly when bit \<open>i\<close> is set and 0 otherwise;
  when \<open>bit_fields\<close> is absent or zero the declared \<open>num_fields\<close> is kept. For
  \<open>bit_fields = 0b00000101\<close> and five names, whatever was declared, \<open>num_fields\<close>
  becomes 2.
\<close>

theorem load_columns_bitmask:
  "(bit_fields dfi = Some bf \<and> bf \<noteq> 0 \<longrightarrow>
      num_fields (resolve_bits dfi) = Some (popcount8 bf) \<and>
      (\<exists>bs. bits (resolve_bits dfi) = Some bs \<and> length bs = 8 \<and>
            (\<forall>i < 8. bs ! i = (if bit bf i then 1 else 0))))
   \<and> (bit_fields dfi = None \<or> bit_fields dfi = Some 0 \<longrightarrow>
      num_fields (resolve_bits dfi) = num_fields dfi)
   \<and> (length lines = 5 \<and> collect_names (take 2 lines) = Inr names \<longrightarrow>
      (\<exists>dfi'. load_columns_lines lines (dfi\<lparr>bit_fields := Some 5\<rparr>) = Inr dfi' \<and>
         num_fields dfi' = Some 2))"
proof (intro conjI impI)
  assume a: "bit_fields dfi = Some bf \<and> bf \<noteq> 0"
  then show "num_fields (resolve_bits dfi) = Some (popcount8 bf)"
    by (simp add: resolve_bits_truthy)
  have "\<forall>i<8. map (\<lambda>p. if bit bf p then 1 else 0) [0 ..< 8] ! i
               = (if bit bf i then 1 else (0::int))"
    by (simp del: upt_Suc)
  with a show "\<exists>bs. bits (resolve_bits dfi) = Some bs \<and> length bs = 8 \<and>
            (\<forall>i < 8. bs ! i = (if bit bf i then 1 else 0))"
    by (simp add: resolve_bits_truthy del: upt_Suc)
next
  assume "bit_fields dfi = None \<or> bit_fields dfi = Some 0"
  then have "\<not> truthy (bit_fields dfi)" by (auto simp: truthy_def)
  then show "num_fields (resolve_bits dfi) = num_fields dfi"
    by (simp add: resolve_bits_falsy)
next
  assume a: "length lines = 5 \<and> collect_names (take 2 lines) = Inr names"
  let ?d = "dfi\<lparr>bit_fields := Some 5\<rparr>"
  have r: "resolve_bits ?d =
      ?d\<lparr>bits := Some (map (\<lambda>p. if bit (5::int) p then 1 else 0) [0 ..< 8]),
         num_fields := Some 2\<rparr>"
    using resolve_bits_truthy [of ?d 5] popcount8_5 by simp
  from a have "length names = 2"
    by (auto dest: collect_names_length)
  then show "\<exists>dfi'. load_columns_lines lines ?d = Inr dfi' \<and> num_fields dfi' = Some 2"
    using a
    by (simp add: load_columns_lines_def r Let_def truncate_lines_Some bind_e_def
             del: upt_Suc)
qed

theorem load_columns_bitmask_witness:
  "num_fields (resolve_bits masked_stock) = Some 2
   \<and> num_fields (resolve_bits (new_DataFileInfo\<lparr>num_fields := Some 7\<rparr>)) = Some 7
   \<and> (\<exists>dfi'. load_columns_lines five_lines masked_stock = Inr dfi' \<and>
         num_fields dfi' = Some 2)"
proof -
  have m: "bit_fields masked_stock = Some 5 \<and> (5::int) \<noteq> 0"
    by (simp add: masked_stock_def new_DataFileInfo_def)
  have l: "length five_lines = 5 \<and> collect_names (take 2 five_lines) = Inr [''DATE'', ''OPEN'']"
    using five_lines_names by (simp add: five_lines_def)
  have n: "bit_fields (new_DataFileInfo\<lparr>num_fields := Some 7\<rparr>) = None
           \<or> bit_fields (new_DataFileInfo\<lparr>num_fields := Some 7\<rparr>) = Some 0"
    by (simp add: new_DataFileInfo_def)
  have same: "masked_stock\<lparr>bit_fields := Some 5\<rparr> = masked_stock"
    by (simp add: masked_stock_def new_DataFileInfo_def)
  show ?thesis
    using load_columns_bitmask [of masked_stock 5 five_lines "[''DATE'', ''OPEN'']"]
          load_columns_bitmask [of "new_DataFileInfo\<lparr>num_fields := Some 7\<rparr>" 5 five_lines "[]"]
          m l n same popcount8_5
    by (simp add: new_DataFileInfo_def)
qed

section \<open>Conversions that depart from the specification\<close>

text \<open>
  Claim C2 says that a slot whose mask bit is 0 is absent from the header line and from
  every data line. The header loop (lines 184 to 190) consults \<open>self.bits\<close>; the record
  loop (lines 200 to 217) does not. For the symbol with mask \<open>0b101\<close> and schema DATE,
  OPEN the header is \<open>"Name","Date"\<close>, yet the data line carries the value of the
  inactive slot OPEN: \<open>"ACME",20200101,17.00\<close>.
\<close>

theorem inactive_slot_written_to_data_line:
  \<open>convert2ascii sample_codec 2 masked_fs no_env masked_stock =
     (None, Some (''AC.CSV'',
        [''"Name"'', '',"Date"'', NEWLINE,
         ''"ACME"'', '',20200101'', '',17.00'', NEWLINE]))\<close>
  by code_simp

text \<open>
  Claim C3 says that the line of a record starts with the symbol's name wherever the DATE
  column stands. The record loop writes the name when it reaches the DATE column
  (lines 212 to 215): with the schema OPEN, DATE the header is \<open>"Name","Open","Date"\<close>
  and the data line is \<open>,17.00"ACME",20200101\<close>.
\<close>

theorem name_written_at_date_column:
  \<open>convert2ascii sample_codec 2 open_first_fs no_env open_first_stock =
     (None, Some (''AC.CSV'',
        [''"Name"'', '',"Open"'', '',"Date"'', NEWLINE,
         '',17.00'', ''"ACME"'', '',20200101'', NEWLINE]))\<close>
  by code_simp

text \<open>
  Claim C4 says that a symbol without \<open>bit_fields\<close> converts without error. A MASTER
  record leaves \<open>bit_fields\<close> and \<open>num_fields\<close> at \<open>None\<close>: the truncation loop of
  \<open>_load_columns\<close> then empties the list and pops once more, which raises \<open>IndexError\<close>.
  With a declared field count and a mask that is absent for the loader (zero), the list
  \<open>self.bits\<close> stays empty and the first lookup \<open>self.bits[...]\<close> of \<open>load_candles\<close>
  raises \<open>IndexError\<close> after \<open>"Name"\<close> has been written.
\<close>

theorem conversion_without_mask_fails:
  \<open>MSMasterFile_init (le_bytes 2 1 @ replicate 51 NUL @ master_record) = Inr [master_stock]
   \<and> bit_fields master_stock = None
   \<and> convert2ascii sample_codec 2 master_fs no_env master_stock = (Some IndexError, None)
   \<and> convert2ascii sample_codec 2 master_fs no_env zero_mask_stock
        = (Some IndexError, Some (''AB.CSV'', [''"Name"'']))\<close>
  by code_simp

text \<open>
  What the guard \<open>find > 0\<close> does: a field that does not start with a NUL is cut at
  its first NUL, and a field that starts with one is kept whole.
\<close>

lemma cut_at_nul_takeWhile:
  assumes "s = [] \<or> hd s \<noteq> NUL"
  shows "cut_at_nul s = takeWhile (\<lambda>ch. ch \<noteq> NUL) s"
proof (cases "NUL \<in> set s")
  case False
  then have "takeWhile (\<lambda>ch. ch \<noteq> NUL) s = s"
    by (induction s) auto
  moreover have "cut_at_nul s = s"
    using False by (simp add: cut_at_nul_def find_nul_def)
  ultimately show ?thesis by (simp only:)
next
  case True
  then obtain x xs where s: "s = x # xs" by (cases s) auto
  with assms have "x \<noteq> NUL" by simp
  with s True have "find_nul s > 0" by (simp add: find_nul_def)
  then show ?thesis
    using True by (simp add: cut_at_nul_def find_nul_def takeWhile_eq_take [symmetric])
qed

lemma cut_at_nul_leading_nul: "cut_at_nul (NUL # s) = NUL # s"
  by (simp add: cut_at_nul_def find_nul_def)

text \<open>
  Claim C8 says that a name is the raw field cut at its first NUL. The readers cut only
  when \<open>find\<close> returns a positive index: the MASTER record with an empty name field
  (sixteen NULs, the first at index 0) is parsed to a name of sixteen NULs, where the
  field cut at its first NUL is the empty string.
\<close>

theorem name_field_starting_with_nul_kept_whole:
  "MS_read_file_info master_record = Inr (master_stock, [])
   \<and> stock_name master_stock = replicate 16 NUL
   \<and> takeWhile (\<lambda>ch. ch \<noteq> NUL) (take 16 (drop 7 master_record)) = []"
  by code_simp

text \<open>
  Claim C9 says that a decoded time is written as its hour, minute and second.
  \<open>TimeColumn.format\<close> (lines 114 to 117) reads \<open>value.year\<close>, \<open>value.month\<close> and
  \<open>value.day\<close>, which a time does not have: formatting any decoded time raises
  \<open>AttributeError\<close>, and the conversion of a symbol with a TIME column stops at the first
  record, after the date.
\<close>

theorem time_column_format_raises:
  \<open>column_format c precision (TimeColumn n) (PyTime t) = Inl AttributeError
   \<and> float2time sample_codec 93000 = Some \<lparr>hour = 9, minute = 30, second = 0\<rparr>
   \<and> convert2ascii sample_codec 2 time_fs no_env time_stock =
       (Some AttributeError, Some (''AC.CSV'',
          [''"Name"'', '',"Date"'', '',"Time"'', NEWLINE, ''"ACME"'', '',20200101'']))\<close>
proof -
  have "column_format c precision (TimeColumn n) (PyTime t) = Inl AttributeError"
    by (simp add: format_ymd_def bind_e_def)
  moreover have "float2time sample_codec 93000 = Some \<lparr>hour = 9, minute = 30, second = 0\<rparr>"
    by (simp add: sample_codec_def)
  moreover have \<open>convert2ascii sample_codec 2 time_fs no_env time_stock =
       (Some AttributeError, Some (''AC.CSV'',
          [''"Name"'', '',"Date"'', '',"Time"'', NEWLINE, ''"ACME"'', '',20200101'']))\<close>
    by code_simp
  ultimately show ?thesis by simp
qed

section \<open>Truncation of the schema and schema mismatch\<close>

text \<open>
  Claim C7. Let \<open>n\<close> be the field count the loader resolved (declared, or the popcount
  of the mask). With at least \<open>n\<close> lines the list is cut to its first \<open>n\<close> entries, the
  rest being discarded, and these become the schema. With fewer than \<open>n\<close> lines the
  assertion of line 66 fails; \<open>convert2ascii\<close> catches the \<open>AssertionError\<close>, nothing is
  written for the symbol, and \<open>output_ascii\<close> goes on with the stocks that follow.
\<close>

theorem schema_truncation:
  assumes nf: "num_fields (resolve_bits dfi) = Some n" and n0: "0 \<le> n"
  shows "(n \<le> int (length lines) \<longrightarrow>
            truncate_lines lines (Some n) = Inr (take (nat n) lines)
          \<and> int (length (take (nat n) lines)) = n
          \<and> (\<forall>cols. collect_names (take (nat n) lines) = Inr cols \<longrightarrow>
                load_columns_lines lines dfi = Inr ((resolve_bits dfi)\<lparr>columns := Some cols\<rparr>)))
       \<and> (int (length lines) < n \<longrightarrow>
            load_columns_lines lines dfi = Inl AssertionError
          \<and> (open_dop fs (file_num dfi) = Inr content \<and> py_split content = lines \<longrightarrow>
                convert2ascii c precision fs env dfi = (Some AssertionError, None)
              \<and> output_ascii c precision fs env True symbols (dfi # stocks)
                  = (stock_symbol dfi, Some AssertionError, None)
                    # output_ascii c precision fs env True symbols stocks))"
proof (intro conjI impI allI)
  assume le: "n \<le> int (length lines)"
  show "truncate_lines lines (Some n) = Inr (take (nat n) lines)"
    using n0 by (rule truncate_lines_Some)
  show len: "int (length (take (nat n) lines)) = n"
    using le n0 by simp
  fix cols
  assume "collect_names (take (nat n) lines) = Inr cols"
  then show "load_columns_lines lines dfi = Inr ((resolve_bits dfi)\<lparr>columns := Some cols\<rparr>)"
    using nf n0 len by (simp add: load_columns_lines_def Let_def truncate_lines_Some bind_e_def)
next
  assume lt: "int (length lines) < n"
  then show a: "load_columns_lines lines dfi = Inl AssertionError"
    using nf n0 by (simp add: load_columns_lines_def Let_def truncate_lines_Some bind_e_def)
  assume "open_dop fs (file_num dfi) = Inr content \<and> py_split content = lines"
  then show b: "convert2ascii c precision fs env dfi = (Some AssertionError, None)"
    using a by (simp add: convert2ascii_def load_columns_def bind_e_def)
  then show "output_ascii c precision fs env True symbols (dfi # stocks)
                  = (stock_symbol dfi, Some AssertionError, None)
                    # output_ascii c precision fs env True symbols stocks"
    by simp
qed

lemma short_facts:
  "num_fields (resolve_bits short_stock) = Some 3"
  "open_dop short_fs (file_num short_stock) = Inr short_dop"
  "length (py_split short_dop) = 2"
  "stock_symbol short_stock = ''SH''"
  by code_simp+

lemma masked_facts:
  "num_fields (resolve_bits masked_stock) = Some 2"
  "length five_lines = 5"
  "take 2 five_lines = [hd five_lines, hd (tl five_lines)]"
  by code_simp+

lemma masked_in_short_fs:
  \<open>output_ascii sample_codec 2 short_fs no_env True [] [masked_stock] =
     [(''AC'', None, Some (''AC.CSV'',
        [''"Name"'', '',"Date"'', NEWLINE,
         ''"ACME"'', '',20200101'', '',17.00'', NEWLINE]))]\<close>
  by code_simp

theorem schema_truncation_witness:
  \<open>truncate_lines five_lines (Some 2) = Inr [hd five_lines, hd (tl five_lines)]
   \<and> load_columns_lines (py_split short_dop) short_stock = Inl AssertionError
   \<and> output_ascii sample_codec 2 short_fs no_env True [] [short_stock, masked_stock] =
       [(''SH'', Some AssertionError, None),
        (''AC'', None, Some (''AC.CSV'',
           [''"Name"'', '',"Date"'', NEWLINE,
            ''"ACME"'', '',20200101'', '',17.00'', NEWLINE]))]\<close>
  using schema_truncation [of masked_stock 2 five_lines]
        schema_truncation [of short_stock 3 "py_split short_dop" short_fs short_dop
                              sample_codec 2 no_env "[]" "[masked_stock]"]
        short_facts masked_facts masked_in_short_fs
  by simp

section \<open>EMASTER records with undecodable dates\<close>

lemma take1_drop: "k < length r \<Longrightarrow> take (Suc 0) (drop k r) = [r ! k]"
  by (simp add: take_Suc_conv_app_nth)

lemma MSE_read_file_info_record:
  assumes len: "length r = 192"
  shows "MSE_read_file_info c (r @ rest)
           = Inr (if emaster_rejected c r then None else Some (emaster_decode c r), rest)"
  using len
  by (simp add: MSE_read_file_info_def skip_def read_def Let_def bind_e_def unpack_uint_def
        unpack_c_def unpack_float_def emaster_rejected_def emaster_decode_def take1_drop)

lemma MSE_loop_records:
  assumes "\<forall>r \<in> set recs. length r = 192"
  shows "MSE_loop c (length recs) (concat recs @ rest) acc
           = Inr (acc @ map (emaster_decode c) (filter (\<lambda>r. \<not> emaster_rejected c r) recs))"
  using assms
proof (induction recs arbitrary: acc)
  case Nil
  show ?case by simp
next
  case (Cons r recs)
  then have len: "length r = 192" and rest: "\<forall>r \<in> set recs. length r = 192"
    by simp_all
  have one: "MSE_read_file_info c (r @ concat recs @ rest)
      = Inr (if emaster_rejected c r then None else Some (emaster_decode c r),
             concat recs @ rest)"
    using len by (rule MSE_read_file_info_record)
  show ?case
    using Cons.IH [OF rest] by (simp add: one bind_e_def)
qed

text \<open>
  Claim C6. An EMASTER file is a 192-byte header whose first word is the record count,
  followed by that many 192-byte records. Parsing it never aborts: the result is the
  list of the records whose two dates decode, in file order, each decoded at the
  offsets of the layout, and its length is the record count minus the number of
  rejected records.
\<close>
theorem emaster_rejects_bad_dates:
  assumes hdr: "length hdr = 192"
    and cnt: "le_uint (take 2 hdr) = int (length recs)"
    and recs: "\<forall>r \<in> set recs. length r = 192"
  shows "\<exists>stocks. MSEMasterFile_init c (hdr @ concat recs @ rest) = Inr stocks
           \<and> stocks = map (emaster_decode c) (filter (\<lambda>r. \<not> emaster_rejected c r) recs)
           \<and> length stocks = length recs - length (filter (emaster_rejected c) recs)"
proof -
  have split: "length (filter (\<lambda>r. \<not> emaster_rejected c r) recs)
                 = length recs - length (filter (emaster_rejected c) recs)"
    using sum_length_filter_compl [of "emaster_rejected c" recs] by simp
  have "MSEMasterFile_init c (hdr @ concat recs @ rest)
          = MSE_loop c (length recs) (concat recs @ rest) []"
    using hdr cnt
    by (simp add: MSEMasterFile_init_def read_def skip_def Let_def bind_e_def unpack_uint_def)
  then show ?thesis
    using MSE_loop_records [OF recs, of c rest "[]"] split by simp
qed

lemma emaster_file_split:
  "emaster_file = emaster_header 3 @ concat [emaster_record 1 7 127 ''AAA'' ''Alpha'' 1200101 1200105,
       emaster_record 2 7 127 ''BBB'' ''Beta'' 0 1200105,
       emaster_record 3 5 31 ''CCC'' ''Gamma'' 1200101 1200105] @ []"
  by (simp add: emaster_file_def)

lemma emaster_file_facts:
  "length (emaster_header 3) = 192"
  "le_uint (take 2 (emaster_header 3)) = 3"
  "length (emaster_record 1 7 127 ''AAA'' ''Alpha'' 1200101 1200105) = 192"
  "length (emaster_record 2 7 127 ''BBB'' ''Beta'' 0 1200105) = 192"
  "length (emaster_record 3 5 31 ''CCC'' ''Gamma'' 1200101 1200105) = 192"
  "emaster_rejected sample_codec (emaster_record 1 7 127 ''AAA'' ''Alpha'' 1200101 1200105) = False"
  "emaster_rejected sample_codec (emaster_record 2 7 127 ''BBB'' ''Beta'' 0 1200105) = True"
  "emaster_rejected sample_codec (emaster_record 3 5 31 ''CCC'' ''Gamma'' 1200101 1200105) = False"
  by code_simp+

theorem emaster_rejects_bad_dates_witness:
  "\<exists>stocks. MSEMasterFile_init sample_codec emaster_file = Inr stocks
     \<and> map stock_symbol stocks = [''AAA'', ''CCC'']
     \<and> length stocks = 3 - 1"
proof -
  let ?recs = "[emaster_record 1 7 127 ''AAA'' ''Alpha'' 1200101 1200105,
       emaster_record 2 7 127 ''BBB'' ''Beta'' 0 1200105,
       emaster_record 3 5 31 ''CCC'' ''Gamma'' 1200101 1200105]"
  have sym: "stock_symbol (emaster_decode sample_codec (emaster_record 1 7 127 ''AAA'' ''Alpha'' 1200101 1200105)) = ''AAA''"
    "stock_symbol (emaster_decode sample_codec (emaster_record 3 5 31 ''CCC'' ''Gamma'' 1200101 1200105)) = ''CCC''"
    by code_simp+
  have h1: "length (emaster_header 3) = 192" by (rule emaster_file_facts)
  have h2: "le_uint (take 2 (emaster_header 3)) = int (length ?recs)"
    using emaster_file_facts(2) by simp
  have h3: "\<forall>r \<in> set ?recs. length r = 192"
    using emaster_file_facts(3-5) by simp
  from emaster_rejects_bad_dates [OF h1 h2 h3, of sample_codec "[]"]
  show ?thesis
    using emaster_file_facts(6-8) sym by (simp add: emaster_file_split)
qed

section \<open>Unknown columns\<close>

lemma col_step_inp:
  "col_step c p nm y col st = Inr st' \<Longrightarrow> inp st' = drop 4 (inp st)"
  by (auto simp: col_step_def read_def dataSize_def unknownColumnDataSize_def bind_e_def Let_def
           split: option.splits sum.splits if_splits)

lemma cut_slot_take4: "4 * k + 8 \<le> length s \<Longrightarrow> take 4 (cut_slot (Suc k) s) = take 4 s"
  by (simp add: cut_slot_def min_def)

lemma cut_slot_drop4: "4 * k + 8 \<le> length s \<Longrightarrow> drop 4 (cut_slot (Suc k) s) = cut_slot k (drop 4 s)"
  by (simp add: cut_slot_def min_def drop_take add.commute)

lemma col_step_cut:
  assumes "4 * k + 8 \<le> length (inp st)"
  shows "col_step c p nm y col (st\<lparr>inp := cut_slot (Suc k) (inp st)\<rparr>)
           = map_sum id (\<lambda>s. s\<lparr>inp := cut_slot k (inp s)\<rparr>) (col_step c p nm y col st)"
  using cut_slot_take4 [OF assms] cut_slot_drop4 [OF assms]
  by (auto simp: col_step_def read_def dataSize_def unknownColumnDataSize_def bind_e_def Let_def
           split: option.splits sum.splits)

lemma cols_loop_unknown:
  "4 * length pre + 4 \<le> length (inp st) \<Longrightarrow>
     same_output (cols_loop c p nm y (pre @ None # post) st)
                 (cols_loop c p nm y (pre @ post) (st\<lparr>inp := cut_slot (length pre) (inp st)\<rparr>))"
proof (induction pre arbitrary: st)
  case Nil
  then show ?case
    by (simp add: col_step_def read_def unknownColumnDataSize_def cut_slot_def same_output_def)
next
  case (Cons col pre)
  then have len: "4 * length pre + 8 \<le> length (inp st)" by simp
  show ?case
  proof (cases "col_step c p nm y col st")
    case (Inl e)
    then show ?thesis
      using col_step_cut [OF len, of c p nm y col] by (simp add: same_output_def)
  next
    case (Inr st')
    have "inp st' = drop 4 (inp st)" using Inr by (rule col_step_inp)
    with len have "4 * length pre + 4 \<le> length (inp st')" by simp
    from Cons.IH [OF this] show ?thesis
      using Inr col_step_cut [OF len, of c p nm y col] by simp
  qed
qed

lemma header_loop_cols:
  "header_loop cols bs names out0 cs0 = (None, out1, cs1) \<Longrightarrow>
     cs1 = cs0 @ map knownMSColumns names"
proof (induction names arbitrary: out0 cs0)
  case Nil
  then show ?case by simp
next
  case (Cons a names)
  then obtain chunk where cell: "header_cell cols bs a = Inr chunk"
    by (cases "header_cell cols bs a") auto
  with Cons.prems
  have "header_loop cols bs names (out0 @ chunk) (cs0 @ [knownMSColumns a]) = (None, out1, cs1)"
    by simp
  from Cons.IH [OF this] show ?case by simp
qed

text \<open>
  Claim C10. For a column name that is not a key of \<open>knownMSColumns\<close>: the header loop
  writes nothing for it (its only other outcome is the \<open>IndexError\<close> of the flag
  lookup) and records \<open>None\<close> in the local column list; in every record the slot's
  step drops four bytes from the stream and leaves the output and \<open>perform_write\<close>
  untouched; and a record whose schema has the unknown column in some slot is decoded
  as the same record without that slot and without its four bytes: the columns after
  it get the same values.
\<close>
theorem unknown_column_inert:
  assumes unk: "knownMSColumns ms_col_name = None"
  shows "header_cell cols bs ms_col_name
            = (if index_of cols ms_col_name < length bs then Inr [] else Inl IndexError)
       \<and> (header_loop cols bs names out0 cs0 = (None, out1, cs1) \<longrightarrow>
            cs1 = cs0 @ map knownMSColumns names)
       \<and> col_step c p nm y (knownMSColumns ms_col_name) st = Inr (st\<lparr>inp := drop 4 (inp st)\<rparr>)
       \<and> (4 * length pre + 4 \<le> length (inp st) \<longrightarrow>
            same_output
              (cols_loop c p nm y (pre @ knownMSColumns ms_col_name # post) st)
              (cols_loop c p nm y (pre @ post) (st\<lparr>inp := cut_slot (length pre) (inp st)\<rparr>)))"
proof (intro conjI impI)
  show "header_cell cols bs ms_col_name
            = (if index_of cols ms_col_name < length bs then Inr [] else Inl IndexError)"
    using unk by (simp add: header_cell_def Let_def)
  show "col_step c p nm y (knownMSColumns ms_col_name) st = Inr (st\<lparr>inp := drop 4 (inp st)\<rparr>)"
    using unk by (simp add: col_step_def read_def unknownColumnDataSize_def)
next
  assume "header_loop cols bs names out0 cs0 = (None, out1, cs1)"
  then show "cs1 = cs0 @ map knownMSColumns names" by (rule header_loop_cols)
next
  assume "4 * length pre + 4 \<le> length (inp st)"
  then show "same_output
              (cols_loop c p nm y (pre @ knownMSColumns ms_col_name # post) st)
              (cols_loop c p nm y (pre @ post) (st\<lparr>inp := cut_slot (length pre) (inp st)\<rparr>))"
    using unk cols_loop_unknown by simp
qed

lemma junk_facts:
  "knownMSColumns ''XYZ'' = None"
  "length (inp junk_state) = 12"
  "cut_slot 1 (inp junk_state) = le_bytes 4 20200101 @ le_bytes 4 17"
  \<open>cols_loop sample_codec 2 ''ACME'' 0
     [Some (DateColumn ''Date''), None, Some (FloatColumn ''Close'')] junk_state
   = (None, \<lparr>inp = [], out = [''"ACME"'', '',20200101'', '',17.00''], perform_write = True\<rparr>)\<close>
  by code_simp+

theorem unknown_column_inert_witness:
  \<open>header_cell [''DATE'', ''XYZ'', ''CLOSE''] [1, 1, 1, 0, 0, 0, 0, 0] ''XYZ'' = Inr []
   \<and> col_step sample_codec 2 ''ACME'' 0 (knownMSColumns ''XYZ'') junk_state
       = Inr (junk_state\<lparr>inp := drop 4 (inp junk_state)\<rparr>)
   \<and> same_output
       (None, \<lparr>inp = [], out = [''"ACME"'', '',20200101'', '',17.00''], perform_write = True\<rparr>)
       (cols_loop sample_codec 2 ''ACME'' 0
          [Some (DateColumn ''Date''), Some (FloatColumn ''Close'')]
          (junk_state\<lparr>inp := le_bytes 4 20200101 @ le_bytes 4 17\<rparr>))\<close>
proof -
  have i: "index_of [''DATE'', ''XYZ'', ''CLOSE''] ''XYZ'' < length [1, 1, 1, 0, 0, 0, 0, 0::int]"
    by code_simp
  have l: "4 * length [Some (DateColumn ''Date'')] + 4 \<le> length (inp junk_state)"
    using junk_facts(2) by simp
  from unknown_column_inert [OF junk_facts(1),
         of "[''DATE'', ''XYZ'', ''CLOSE'']" "[1, 1, 1, 0, 0, 0, 0, 0]" "[]" "[]" "[]" "[]" "[]"
            sample_codec 2 "''ACME''" 0 junk_state
            "[Some (DateColumn ''Date'')]" "[Some (FloatColumn ''Close'')]"]
  show ?thesis
    using i l junk_facts by (simp del: cols_loop.simps)
qed

section \<open>The date cutoff\<close>

lemma cols_loop_append:
  "cols_loop c p nm y (xs @ ys) st =
     (case cols_loop c p nm y xs st of
        (Some e, s) \<Rightarrow> (Some e, s)
      | (None, s) \<Rightarrow> cols_loop c p nm y ys s)"
  by (induction xs arbitrary: st) (auto split: sum.splits)

lemma cols_loop_inp:
  "cols_loop c p nm y cols st = (None, st') \<Longrightarrow> inp st' = drop (4 * length cols) (inp st)"
proof (induction cols arbitrary: st)
  case Nil
  then show ?case by simp
next
  case (Cons col cols)
  then obtain s1 where s1: "col_step c p nm y col st = Inr s1"
    by (cases "col_step c p nm y col st") auto
  with Cons.prems have "cols_loop c p nm y cols s1 = (None, st')" by simp
  from Cons.IH [OF this] col_step_inp [OF s1] show ?case
    by (simp add: add.commute)
qed

lemma col_step_date:
  assumes "col_step c p nm y (Some (DateColumn n)) st = Inr st'"
  shows "\<exists>d. decoded_date c p n (take 4 (inp st)) = Inr d
           \<and> perform_write st' = (y \<le> d)
           \<and> (\<not> y \<le> d \<longrightarrow> out st' = out st)"
  using assms
  by (auto simp: col_step_def read_def dataSize_def bind_e_def Let_def decoded_date_def
           split: sum.splits if_splits)

lemma col_step_nodate:
  assumes "\<not> is_date_slot col" "col_step c p nm y col st = Inr st'"
  shows "perform_write st' = perform_write st
           \<and> (\<not> perform_write st \<longrightarrow> out st' = out st)"
  using assms
  by (auto simp: col_step_def read_def dataSize_def unknownColumnDataSize_def bind_e_def Let_def
                 is_date_slot_def
           split: option.splits sum.splits if_splits)

lemma cols_loop_nodate:
  "\<not> list_ex is_date_slot cols \<Longrightarrow> cols_loop c p nm y cols st = (None, st') \<Longrightarrow>
     perform_write st' = perform_write st \<and> (\<not> perform_write st \<longrightarrow> out st' = out st)"
proof (induction cols arbitrary: st)
  case Nil
  then show ?case by simp
next
  case (Cons col cols)
  then obtain s1 where s1: "col_step c p nm y col st = Inr s1"
    by (cases "col_step c p nm y col st") auto
  with Cons.prems have rest: "cols_loop c p nm y cols s1 = (None, st')" by simp
  from Cons.prems have nd: "\<not> is_date_slot col" "\<not> list_ex is_date_slot cols" by simp_all
  from Cons.IH [OF nd(2) rest] col_step_nodate [OF nd(1) s1] show ?case by auto
qed

lemma cols_loop_unknowns:
  "list_all (\<lambda>col. col = None) cols \<Longrightarrow>
     cols_loop c p nm y cols st = (None, st\<lparr>inp := drop (4 * length cols) (inp st)\<rparr>)"
proof (induction cols arbitrary: st)
  case Nil
  then show ?case by simp
next
  case (Cons col cols)
  then have "col = None" and "list_all (\<lambda>col. col = None) cols" by simp_all
  with Cons.IH [of "st\<lparr>inp := drop 4 (inp st)\<rparr>"] show ?case
    by (simp add: col_step_def read_def unknownColumnDataSize_def add.commute)
qed

lemma record_with_date:
  assumes schema: "cs = pre @ Some (DateColumn n) # post"
    and nodate: "\<not> list_ex is_date_slot post"
    and run: "cols_loop c p nm y cs st = (None, st')"
  shows "\<exists>d st1. cols_loop c p nm y pre st = (None, st1)
           \<and> decoded_date c p n (take 4 (drop (4 * length pre) (inp st))) = Inr d
           \<and> perform_write st' = (y \<le> d)
           \<and> (\<not> y \<le> d \<longrightarrow> out st' = out st1)"
proof -
  obtain e1 st1 where pre: "cols_loop c p nm y pre st = (e1, st1)"
    by (cases "cols_loop c p nm y pre st")
  with run schema have e1: "e1 = None"
    and rest: "cols_loop c p nm y (Some (DateColumn n) # post) st1 = (None, st')"
    by (auto simp: cols_loop_append split: option.splits)
  from rest obtain s2 where s2: "col_step c p nm y (Some (DateColumn n)) st1 = Inr s2"
    by (cases "col_step c p nm y (Some (DateColumn n)) st1") auto
  with rest have post: "cols_loop c p nm y post s2 = (None, st')" by simp
  from col_step_date [OF s2] obtain d where
    d: "decoded_date c p n (take 4 (inp st1)) = Inr d" "perform_write s2 = (y \<le> d)"
       "\<not> y \<le> d \<longrightarrow> out s2 = out st1"
    by blast
  have "inp st1 = drop (4 * length pre) (inp st)"
    using pre e1 by (simp add: cols_loop_inp)
  with d cols_loop_nodate [OF nodate post] pre e1 show ?thesis by auto
qed

text \<open>
  What the record loop does for a record below the cutoff, for a schema whose last DATE
  column stands after the columns \<open>pre\<close>: all slots are consumed, \<open>perform_write\<close> is
  left false and no line terminator follows, and what the record has written is what
  the columns before DATE wrote under the flag left by the record before. Only when no
  known column precedes DATE does the record write nothing.
\<close>

lemma below_cutoff_record:
  assumes schema: "cs = pre @ Some (DateColumn n) # post"
    and nodate: "\<not> list_ex is_date_slot post"
    and run: "cols_loop c p nm y cs st = (None, st')"
    and date: "decoded_date c p n (take 4 (drop (4 * length pre) (inp st))) = Inr d"
    and below: "d < y"
  shows "inp st' = drop (4 * length cs) (inp st)
       \<and> \<not> perform_write st' \<and> out (end_record st') = out st'
       \<and> (\<exists>st1. cols_loop c p nm y pre st = (None, st1) \<and> out st' = out st1)
       \<and> (list_all (\<lambda>col. col = None) pre \<longrightarrow> out st' = out st)"
proof (intro conjI impI)
  from record_with_date [OF schema nodate run] date below obtain st1 where
    r: "cols_loop c p nm y pre st = (None, st1)" "perform_write st' = (y \<le> d)"
       "out st' = out st1"
    by auto
  show "inp st' = drop (4 * length cs) (inp st)"
    using run by (rule cols_loop_inp)
  show "\<not> perform_write st'" using r(2) below by simp
  then show "out (end_record st') = out st'" by (simp add: end_record_def)
  show "\<exists>st1. cols_loop c p nm y pre st = (None, st1) \<and> out st' = out st1"
    using r by blast
  assume "list_all (\<lambda>col. col = None) pre"
  from cols_loop_unknowns [OF this, of c p nm y st] r show "out st' = out st" by simp
qed

text \<open>
  Claim C5 says that a record below the cutoff is consumed and produces no output. The
  flag \<open>perform_write\<close> is set only when the loop reaches the DATE column (lines 212 and
  213) and is not reset at the start of a record, so a known column before DATE is
  written or dropped under the flag of the record before. With the schema OPEN, DATE,
  the cutoff 20200103 and the records (17, 20200101) and (18, 20200103), the open value
  of the filtered first record is written and that of the second, which passes, is
  not: the only data line of the file is \<open>,17.00"ACME",20200103\<close>.
\<close>

theorem below_cutoff_record_leaks_value:
  \<open>convert2ascii sample_codec 2 filtered_fs cutoff_env filtered_stock =
     (None, Some (''AC.CSV'',
        [''"Name"'', '',"Open"'', '',"Date"'', NEWLINE,
         '',17.00'', ''"ACME"'', '',20200103'', NEWLINE]))\<close>
  by code_simp

end
